theory Spec2Isabelle
  imports Complex_Main "HOL-Library.Char_ord" "HOL-Library.List_Lexorder"
begin

section \<open>Conventions of the embedding\<close>

text \<open>
  The Python sources compute on IEEE floating-point numbers (\<^verbatim>\<open>float\<close>, numpy
  \<^verbatim>\<open>float32\<close>/\<^verbatim>\<open>float64\<close>). The embedding reads every number as a real and every arithmetic
  operation as exact: the rounding of an operation, infinities and NaN are not represented, and
  a cast of a finished result such as \<^verbatim>\<open>astype(np.float32)\<close> is the identity. The one cast that
  comes before arithmetic, the \<^verbatim>\<open>dtype=np.float32\<close> of \<^verbatim>\<open>prepare_input_v3\<close>, is written out
  (\<open>float32\<close> below). Every \<^verbatim>\<open>raise\<close> that exact arithmetic can reach is a value \<open>Inl e\<close> of
  the result type \<open>error + 'a\<close>. Rounding can carry the argument of \<^verbatim>\<open>math.asin\<close> or
  \<^verbatim>\<open>math.sqrt\<close> a last bit outside its domain where the exact value lies on the boundary; the
  code raises \<^verbatim>\<open>ValueError\<close> there and the model does not, so no statement below says that
  \<^verbatim>\<open>predict\<close> or \<^verbatim>\<open>haversine_distance\<close> returns on every input.
\<close>

datatype error =
  TypeError | KeyError | IndexError | ValueError | OSError | OverflowError | ZeroDivisionError

subsection \<open>The functions of the \<^verbatim>\<open>math\<close> module that the sources call\<close>

definition radians :: "real \<Rightarrow> real" where
  "radians d = d * pi / 180"

definition degrees :: "real \<Rightarrow> real" where
  "degrees r = r * 180 / pi"

text \<open>\<^verbatim>\<open>math.asin\<close> raises \<^verbatim>\<open>ValueError\<close> outside \<open>[-1, 1]\<close>.\<close>

definition asin :: "real \<Rightarrow> error + real" where
  "asin x = (if - 1 \<le> x \<and> x \<le> 1 then Inr (arcsin x) else Inl ValueError)"

text \<open>\<^verbatim>\<open>math.sqrt\<close> raises \<^verbatim>\<open>ValueError\<close> on a negative argument.\<close>

definition sqrt_py :: "real \<Rightarrow> error + real" where
  "sqrt_py x = (if x < 0 then Inl ValueError else Inr (sqrt x))"

text \<open>\<^verbatim>\<open>math.atan2(y, x)\<close>: the angle of the point \<open>(x, y)\<close> in \<open>(-pi, pi]\<close>, and 0 at the origin.\<close>

definition atan2 :: "real \<Rightarrow> real \<Rightarrow> real" where
  "atan2 y x =
     (if 0 < x then arctan (y / x)
      else if x < 0 then (if 0 \<le> y then arctan (y / x) + pi else arctan (y / x) - pi)
      else if 0 < y then pi / 2
      else if y < 0 then - (pi / 2)
      else 0)"

text \<open>Rounding to the nearest integer, a tie going to the even one.\<close>

definition round_half_even :: "real \<Rightarrow> int" where
  "round_half_even x =
     (let f = \<lfloor>x\<rfloor>; d = x - of_int f
      in if d < 1 / 2 then f else if 1 / 2 < d then f + 1 else if even f then f else f + 1)"

text \<open>
  The cast to \<^verbatim>\<open>np.float32\<close>: the nearest number with a significand of 24 bits, a tie going
  to the even one. Between \<open>2 ^ e\<close> and \<open>2 ^ (e + 1)\<close> such numbers are \<open>2 ^ (e - 23)\<close>
  apart, and below \<open>2 ^ -126\<close> they stay \<open>2 ^ -149\<close> apart. The overflow to infinity beyond
  the largest \<^verbatim>\<open>float32\<close> is not represented.
\<close>

definition float32 :: "real \<Rightarrow> real" where
  "float32 x =
     (if x = 0 then 0
      else (let e = max \<lfloor>log 2 \<bar>x\<bar>\<rfloor> (- 126);
                ulp = 2 powr (of_int e - 23)
            in of_int (round_half_even (x / ulp)) * ulp))"

text \<open>The operator \<^verbatim>\<open>/\<close> on Python floats raises \<^verbatim>\<open>ZeroDivisionError\<close> on a zero divisor.\<close>

definition py_div :: "real \<Rightarrow> real \<Rightarrow> error + real" where
  "py_div a b = (if b = 0 then Inl ZeroDivisionError else Inr (a / b))"

section \<open>Dead reckoning: \<^verbatim>\<open>ml/models/baseline.py\<close>\<close>

record dr_result =
  dr_predicted_position :: "real \<times> real"
  dr_uncertainty_nm :: real
  dr_uncertainty_degrees :: "real \<times> real"
  dr_distance_traveled_nm :: real
  dr_method :: string

text \<open>
  \<^verbatim>\<open>DeadReckoningBaseline.predict\<close>; the first argument is the attribute
  \<^verbatim>\<open>self.uncertainty_factor\<close> (0.1 unless the constructor is given another value). The longitude
  uncertainty divides by the cosine of the latitude with no guard: in exact arithmetic that is a
  division by zero at latitude 90 (and every odd multiple of it), where the floating-point
  cosine is only tiny and the quotient huge. The model raises there; the statements below about
  the values returned exclude those latitudes. The argument of \<^verbatim>\<open>math.asin\<close> is at most 1 in
  absolute value in exact arithmetic; in the code it can round to a last bit beyond, and
  \<^verbatim>\<open>math.asin\<close> then raises \<^verbatim>\<open>ValueError\<close>.
\<close>

definition predict ::
  "real \<Rightarrow> real \<times> real \<Rightarrow> real \<Rightarrow> real \<Rightarrow> real \<Rightarrow> error + dr_result" where
  "predict uncertainty_factor last_position last_speed last_course time_gap_hours =
     (let lat = fst last_position;
          lon = snd last_position;
          course_rad = radians last_course;
          distance_nm = last_speed * time_gap_hours;
          R = 3440.065;
          lat_rad = radians lat;
          lon_rad = radians lon;
          distance_rad = distance_nm / R
      in case asin (sin lat_rad * cos distance_rad
                    + cos lat_rad * sin distance_rad * cos course_rad) of
           Inl e \<Rightarrow> Inl e
         | Inr new_lat_rad \<Rightarrow>
             (let new_lon_rad = lon_rad + atan2 (sin course_rad * sin distance_rad * cos lat_rad)
                                           (cos distance_rad - sin lat_rad * sin new_lat_rad);
                  new_lat = degrees new_lat_rad;
                  new_lon = degrees new_lon_rad;
                  base_uncertainty = 5;
                  time_uncertainty = uncertainty_factor * time_gap_hours * last_speed;
                  total_uncertainty_nm = base_uncertainty + time_uncertainty;
                  uncertainty_lat = total_uncertainty_nm / 60
              in case py_div total_uncertainty_nm (60 * cos lat_rad) of
                   Inl e \<Rightarrow> Inl e
                 | Inr uncertainty_lon \<Rightarrow>
                     Inr \<lparr> dr_predicted_position = (new_lat, new_lon),
                           dr_uncertainty_nm = total_uncertainty_nm,
                           dr_uncertainty_degrees = (uncertainty_lat, uncertainty_lon),
                           dr_distance_traveled_nm = distance_nm,
                           dr_method = ''dead_reckoning'' \<rparr>))"

section \<open>The velocity normaliser: \<^verbatim>\<open>ml/features/normalizer_v3.py\<close>\<close>

text \<open>
  A row \<^verbatim>\<open>[lat, lon, speed, course]\<close> of the raw array \<^verbatim>\<open>X\<close>, and a row
  \<^verbatim>\<open>[lat_rel, lon_rel, speed_norm, course_sin, course_cos]\<close> of the normalised one. An array of
  shape \<^verbatim>\<open>(N, seq_len, 4)\<close> is a list of \<open>N\<close> sequences.
\<close>

type_synonym raw_point = "real \<times> real \<times> real \<times> real"
type_synonym features = "real \<times> real \<times> real \<times> real \<times> real"

definition rp_lat :: "raw_point \<Rightarrow> real" where "rp_lat p = fst p"
definition rp_lon :: "raw_point \<Rightarrow> real" where "rp_lon p = fst (snd p)"
definition rp_speed :: "raw_point \<Rightarrow> real" where "rp_speed p = fst (snd (snd p))"
definition rp_course :: "raw_point \<Rightarrow> real" where "rp_course p = snd (snd (snd p))"

record normalizer =
  stats :: "string \<rightharpoonup> real"
  fitted :: bool
  coord_scale :: real
  max_speed :: real
  velocity_scale :: real




text \<open>\<^verbatim>\<open>max(self.stats.get('lat_std', 1.0), 1.0)\<close>\<close>

definition coord_scale_of :: "normalizer \<Rightarrow> real" where
  "coord_scale_of nz = max (case stats nz ''lat_std'' of None \<Rightarrow> 1 | Some v \<Rightarrow> v) 1"

definition normalize_point :: "normalizer \<Rightarrow> real \<Rightarrow> real \<Rightarrow> raw_point \<Rightarrow> features" where
  "normalize_point nz last_lat last_lon p =
     (let coord_scale = coord_scale_of nz;
          lat_rel = (rp_lat p - last_lat) / coord_scale;
          lon_rel = (rp_lon p - last_lon) / coord_scale;
          speed_norm = rp_speed p / max_speed nz;
          course_rad = radians (rp_course p);
          course_sin = sin course_rad;
          course_cos = cos course_rad
      in (lat_rel, lon_rel, speed_norm, course_sin, course_cos))"







section \<open>The prediction server: \<^verbatim>\<open>ml/prediction_server.py\<close>\<close>

definition SEQUENCE_LENGTH :: nat where
  "SEQUENCE_LENGTH = 20"

text \<open>The pydantic model \<^verbatim>\<open>PositionPoint\<close>: \<^verbatim>\<open>speed\<close> and \<^verbatim>\<open>course\<close> may be \<^verbatim>\<open>None\<close>.\<close>

record position_point =
  pp_lat :: real
  pp_lon :: real
  pp_speed :: "real option"
  pp_course :: "real option"

record prediction_request =
  rq_vessel_id :: string
  rq_last_position :: position_point
  rq_gap_duration_hours :: real
  rq_sequence :: "position_point list option"
  rq_model_type :: string
  rq_aggression_factor :: real

text \<open>A GeoJSON point feature: \<^verbatim>\<open>coordinates\<close> is \<^verbatim>\<open>[lon, lat]\<close>.\<close>

record feature =
  coordinates :: "real \<times> real"
  probability :: real

record prediction_response =
  r_vessel_id :: string
  r_predicted_position :: "real \<times> real"
  r_uncertainty_nm :: real
  r_uncertainty_degrees :: "real \<times> real"
  r_method :: string
  r_model_confidence :: "real option"
  r_probability_cloud :: "feature list"

text \<open>
  The module-level variables \<^verbatim>\<open>lstm_model\<close> and \<^verbatim>\<open>normalizer\<close>, both \<^verbatim>\<open>None\<close> until
  \<^verbatim>\<open>load_models\<close> finds its files. The learned model is opaque: a function from the
  \<^verbatim>\<open>(1, 20, 5)\<close> input to the first row of its output, or an exception.
\<close>

record server_state =
  lstm_model :: "(features list list \<Rightarrow> error + real list) option"
  normalizer :: "normalizer option"

text \<open>Python's \<^verbatim>\<open>v or d\<close> on an optional float: \<^verbatim>\<open>None\<close> and \<^verbatim>\<open>0.0\<close> are falsy.\<close>

definition or_default :: "real option \<Rightarrow> real \<Rightarrow> real" where
  "or_default v d = (case v of None \<Rightarrow> d | Some x \<Rightarrow> if x = 0 then d else x)"

definition cloud_cell :: "real \<Rightarrow> real \<Rightarrow> real \<Rightarrow> real \<Rightarrow> nat \<Rightarrow> nat \<Rightarrow> nat \<Rightarrow> feature" where
  "cloud_cell lat lon unc_lat unc_lon grid_size i j =
     (let pt_lat = lat - 3 * unc_lat + 6 * unc_lat * real i / (real grid_size - 1);
          pt_lon = lon - 3 * unc_lon + 6 * unc_lon * real j / (real grid_size - 1);
          d_lat = (if 0 < unc_lat then (pt_lat - lat) / unc_lat else 0);
          d_lon = (if 0 < unc_lon then (pt_lon - lon) / unc_lon else 0);
          prob = exp (- (1 / 2) * (d_lat ^ 2 + d_lon ^ 2))
      in \<lparr> coordinates = (pt_lon, pt_lat), probability = prob \<rparr>)"

text \<open>
  \<^verbatim>\<open>generate_probability_cloud\<close>: the two nested loops append the cells to \<^verbatim>\<open>features\<close> row by
  row (\<open>cloud_features\<close>), then every probability is divided by their sum.
\<close>

definition cloud_features :: "real \<Rightarrow> real \<Rightarrow> real \<Rightarrow> real \<Rightarrow> feature list" where
  "cloud_features lat lon unc_lat unc_lon =
     (let grid_size = 30
      in concat (map (\<lambda>i. map (\<lambda>j. cloud_cell lat lon unc_lat unc_lon grid_size i j)
                              [0..<grid_size]) [0..<grid_size]))"

definition generate_probability_cloud ::
  "real \<Rightarrow> real \<Rightarrow> real \<Rightarrow> real \<Rightarrow> error + feature list" where
  "generate_probability_cloud lat lon unc_lat unc_lon =
     (let features = cloud_features lat lon unc_lat unc_lon;
          total = sum_list (map probability features)
      in if total = 0 then Inl ZeroDivisionError
         else Inr (map (\<lambda>f. f\<lparr>probability := probability f / total\<rparr>) features))"

text \<open>The cast of one row of \<^verbatim>\<open>np.array([raw], dtype=np.float32)\<close>.\<close>

definition float32_row :: "raw_point \<Rightarrow> raw_point" where
  "float32_row p =
     (float32 (rp_lat p), float32 (rp_lon p), float32 (rp_speed p), float32 (rp_course p))"

text \<open>
  \<^verbatim>\<open>prepare_input_v3\<close>, called only after \<^verbatim>\<open>normalizer\<close> was found not to be \<^verbatim>\<open>None\<close>. The
  raw list has \<^verbatim>\<open>SEQUENCE_LENGTH\<close> rows on either branch, so its last row exists. The rows are
  cast to \<^verbatim>\<open>float32\<close> before the last one is subtracted from them.
\<close>

definition prepare_input_v3 ::
  "normalizer \<Rightarrow> position_point \<Rightarrow> position_point list option \<Rightarrow> features list list" where
  "prepare_input_v3 nz last_pos seq =
     (let rows =
            (case seq of
               None \<Rightarrow>
                 replicate SEQUENCE_LENGTH
                   (pp_lat last_pos, pp_lon last_pos, or_default (pp_speed last_pos) 5,
                    or_default (pp_course last_pos) 0)
             | Some ps \<Rightarrow>
                 if SEQUENCE_LENGTH \<le> length ps
                 then map (\<lambda>p. (pp_lat p, pp_lon p, or_default (pp_speed p) 0,
                                or_default (pp_course p) 0))
                        (drop (length ps - SEQUENCE_LENGTH) ps)
                 else replicate SEQUENCE_LENGTH
                        (pp_lat last_pos, pp_lon last_pos, or_default (pp_speed last_pos) 5,
                         or_default (pp_course last_pos) 0));
          raw = map float32_row rows;
          last_lat = rp_lat (last raw);
          last_lon = rp_lon (last raw)
      in [map (normalize_point nz last_lat last_lon) raw])"

text \<open>\<^verbatim>\<open>max(0.25, min(10.0, request.aggression_factor))\<close>\<close>

definition clamp_aggression :: "real \<Rightarrow> real" where
  "clamp_aggression a = max (1 / 4) (min 10 a)"

text \<open>
  The body of the \<^verbatim>\<open>try\<close> block of \<^verbatim>\<open>predict_path\<close>. It returns the six variables the block
  assigns; any \<open>Inl\<close> is an exception, which the \<^verbatim>\<open>except Exception\<close> clause answers by
  clearing \<^verbatim>\<open>use_lstm\<close>. Reading \<^verbatim>\<open>velocity_norm[0]\<close> and \<^verbatim>\<open>velocity_norm[1]\<close> raises \<^verbatim>\<open>IndexError\<close> on a
  shorter output. numpy divides by a zero cosine and takes the root of a negative gap without
  raising; the values it returns then (infinity, NaN) have no counterpart here.
\<close>

definition lstm_branch ::
  "(features list list \<Rightarrow> error + real list) \<Rightarrow> normalizer \<Rightarrow> prediction_request \<Rightarrow> real
     \<Rightarrow> error + (real \<times> real \<times> real \<times> real \<times> string \<times> real)" where
  "lstm_branch model nz request aggression =
     (let ref_lat = pp_lat (rq_last_position request);
          ref_lon = pp_lon (rq_last_position request);
          gap_hours = rq_gap_duration_hours request;
          X = prepare_input_v3 nz (rq_last_position request) (rq_sequence request)
      in case model X of
           Inl e \<Rightarrow> Inl e
         | Inr velocity_norm \<Rightarrow>
             if length velocity_norm < 2 then Inl IndexError
             else
               (let velocity = map (\<lambda>v. v * velocity_scale nz) velocity_norm;
                    displacement = map (\<lambda>v. v * gap_hours) velocity;
                    displacement = map (\<lambda>d. d * aggression) displacement;
                    pred_lat = ref_lat + displacement ! 0;
                    pred_lon = ref_lon + displacement ! 1;
                    base_unc = 5 / 100;
                    time_factor = sqrt gap_hours;
                    aggression_unc_factor = sqrt aggression;
                    unc_lat = base_unc * time_factor * aggression_unc_factor;
                    unc_lon = base_unc * time_factor * aggression_unc_factor
                                / cos (radians ref_lat)
                in Inr (pred_lat, pred_lon, unc_lat, unc_lon, ''lstm_v3_velocity'', 85 / 100)))"

text \<open>
  The \<^verbatim>\<open>if not use_lstm\<close> block; \<^verbatim>\<open>baseline_model\<close> is \<^verbatim>\<open>DeadReckoningBaseline()\<close>, whose
  \<^verbatim>\<open>uncertainty_factor\<close> is the default 0.1. An exception of \<^verbatim>\<open>predict\<close> is not caught here.
\<close>

definition baseline_branch ::
  "prediction_request \<Rightarrow> real \<Rightarrow> error + (real \<times> real \<times> real \<times> real \<times> string \<times> real)" where
  "baseline_branch request aggression =
     (let ref_lat = pp_lat (rq_last_position request);
          ref_lon = pp_lon (rq_last_position request);
          gap_hours = rq_gap_duration_hours request;
          effective_gap_hours = gap_hours * aggression
      in case predict (1 / 10) (ref_lat, ref_lon)
                (or_default (pp_speed (rq_last_position request)) 5)
                (or_default (pp_course (rq_last_position request)) 0)
                effective_gap_hours of
           Inl e \<Rightarrow> Inl e
         | Inr result \<Rightarrow>
             (let pred_lat = fst (dr_predicted_position result);
                  pred_lon = snd (dr_predicted_position result);
                  aggression_unc_factor = sqrt aggression;
                  unc_lat = fst (dr_uncertainty_degrees result) * aggression_unc_factor;
                  unc_lon = snd (dr_uncertainty_degrees result) * aggression_unc_factor;
                  confidence = max (2 / 10) ((5 / 10) / aggression)
              in Inr (pred_lat, pred_lon, unc_lat, unc_lon, ''dead_reckoning'', confidence)))"

definition predict_path :: "server_state \<Rightarrow> prediction_request \<Rightarrow> error + prediction_response" where
  "predict_path st request =
     (let aggression = clamp_aggression (rq_aggression_factor request);
          lstm_outcome =
            (if rq_model_type request = ''lstm''
             then (case lstm_model st of
                     None \<Rightarrow> None
                   | Some model \<Rightarrow>
                       (case normalizer st of
                          None \<Rightarrow> None
                        | Some nz \<Rightarrow>
                            (case lstm_branch model nz request aggression of
                               Inl e \<Rightarrow> None
                             | Inr v \<Rightarrow> Some v)))
             else None);
          outcome = (case lstm_outcome of
                       None \<Rightarrow> baseline_branch request aggression
                     | Some v \<Rightarrow> Inr v)
      in case outcome of
           Inl e \<Rightarrow> Inl e
         | Inr (pred_lat, pred_lon, unc_lat, unc_lon, method, confidence) \<Rightarrow>
             (let uncertainty_nm = (unc_lat + unc_lon) / 2 * 60
              in case generate_probability_cloud pred_lat pred_lon unc_lat unc_lon of
                   Inl e \<Rightarrow> Inl e
                 | Inr cloud \<Rightarrow>
                     Inr \<lparr> r_vessel_id = rq_vessel_id request,
                           r_predicted_position = (pred_lat, pred_lon),
                           r_uncertainty_nm = uncertainty_nm,
                           r_uncertainty_degrees = (unc_lat, unc_lon),
                           r_method = method,
                           r_model_confidence = Some confidence,
                           r_probability_cloud = cloud \<rparr>))"

section \<open>The probability cloud generator: \<^verbatim>\<open>src_ml/prediction/generate_cloud.py\<close>\<close>

text \<open>
  \<^verbatim>\<open>np.linspace(start, stop, num)\<close>: \<^verbatim>\<open>num\<close> evenly spaced samples with both ends included, the
  single sample \<^verbatim>\<open>start\<close> when \<^verbatim>\<open>num = 1\<close>, none when \<^verbatim>\<open>num = 0\<close>, and \<^verbatim>\<open>ValueError\<close> on a
  negative \<^verbatim>\<open>num\<close>.
\<close>

definition linspace :: "real \<Rightarrow> real \<Rightarrow> int \<Rightarrow> error + real list" where
  "linspace start stop num =
     (if num < 0 then Inl ValueError
      else if num = 1 then Inr [start]
      else Inr (map (\<lambda>i. start + real i * ((stop - start) / (real_of_int num - 1)))
                  [0..<nat num]))"

record cloud =
  cl_features :: "feature list"
  cl_grid_size :: int
  cl_predicted_position :: "real \<times> real"
  cl_uncertainty_degrees :: "real \<times> real"

text \<open>
  \<^verbatim>\<open>ProbabilityCloudGenerator.generate_from_prediction\<close>; the first two arguments are the
  attributes \<^verbatim>\<open>self.grid_size\<close> and \<^verbatim>\<open>self.num_std\<close>. The meshes are lists of rows:
  \<^verbatim>\<open>lat_mesh[i][j] = lat_grid[i]\<close> and \<^verbatim>\<open>lon_mesh[i][j] = lon_grid[j]\<close>. numpy divides without
  raising.
\<close>

definition generate_from_prediction ::
  "int \<Rightarrow> real \<Rightarrow> real \<times> real \<Rightarrow> real \<times> real \<Rightarrow> error + cloud" where
  "generate_from_prediction grid_size num_std predicted_position uncertainty_degrees =
     (let lat = fst predicted_position;
          lon = snd predicted_position;
          unc_lat = fst uncertainty_degrees;
          unc_lon = snd uncertainty_degrees;
          lat_range = unc_lat * num_std * 2;
          lon_range = unc_lon * num_std * 2;
          lat_min = lat - lat_range / 2;
          lat_max = lat + lat_range / 2;
          lon_min = lon - lon_range / 2;
          lon_max = lon + lon_range / 2
      in case linspace lat_min lat_max grid_size of
           Inl e \<Rightarrow> Inl e
         | Inr lat_grid \<Rightarrow>
             (case linspace lon_min lon_max grid_size of
                Inl e \<Rightarrow> Inl e
              | Inr lon_grid \<Rightarrow>
                  (let lon_mesh = map (\<lambda>la. lon_grid) lat_grid;
                       lat_mesh = map (\<lambda>la. map (\<lambda>lo. la) lon_grid) lat_grid;
                       dlat = map (map (\<lambda>v. (v - lat) / unc_lat)) lat_mesh;
                       dlon = map (map (\<lambda>v. (v - lon) / unc_lon)) lon_mesh;
                       probability =
                         map (\<lambda>(r1, r2). map (\<lambda>(a, b). exp (- (1 / 2) * (a ^ 2 + b ^ 2)))
                                             (zip r1 r2))
                           (zip dlat dlon);
                       total = sum_list (concat probability);
                       probability = map (map (\<lambda>v. v / total)) probability;
                       features =
                         concat (map (\<lambda>i. map (\<lambda>j. \<lparr> coordinates = (lon_mesh ! i ! j, lat_mesh ! i ! j),
                                                      probability = probability ! i ! j \<rparr>)
                                                [0..<nat grid_size])
                                   [0..<nat grid_size])
                   in Inr \<lparr> cl_features = features,
                           cl_grid_size = grid_size,
                           cl_predicted_position = (lat, lon),
                           cl_uncertainty_degrees = (unc_lat, unc_lon) \<rparr>)))"

section \<open>Gap detection: \<^verbatim>\<open>src_ml/data/detect_gaps.py\<close>\<close>

text \<open>
  A position is a dictionary decoded from JSON. Its numeric fields are numbers or \<^verbatim>\<open>None\<close>
  (\<^verbatim>\<open>.get\<close> does not tell an absent key from a \<^verbatim>\<open>None\<close>); its \<^verbatim>\<open>timestamp\<close> is absent
  (\<open>None\<close> here), or one of the JSON scalars \<^verbatim>\<open>null\<close>, a number or a string.
\<close>

datatype pyval = PNone | PNum real | PStr string

record position =
  pos_lat :: "real option"
  pos_lon :: "real option"
  pos_speed :: "real option"
  pos_course :: "real option"
  pos_timestamp :: "pyval option"

text \<open>Truthiness, and the operator \<^verbatim>\<open><\<close>, which raises \<^verbatim>\<open>TypeError\<close> across types and on \<^verbatim>\<open>None\<close>.\<close>

fun truthy :: "pyval \<Rightarrow> bool" where
  "truthy PNone = False"
| "truthy (PNum x) = (x \<noteq> 0)"
| "truthy (PStr s) = (s \<noteq> [])"

fun py_lt :: "pyval \<Rightarrow> pyval \<Rightarrow> error + bool" where
  "py_lt (PNum a) (PNum b) = Inr (a < b)"
| "py_lt (PStr a) (PStr b) = Inr (a < b)"
| "py_lt _ _ = Inl TypeError"

text \<open>
  A \<^verbatim>\<open>datetime\<close> is a number of seconds on the time line, naive (wall-clock) or aware (with an
  offset). The constructors, parsers and printer of the \<^verbatim>\<open>datetime\<close> module are parameters of
  the model: \<open>fromtimestamp\<close> may raise, the parsers return \<open>None\<close> where Python raises
  \<^verbatim>\<open>ValueError\<close>.
\<close>

datatype datetime = Naive real | Aware real

record datetime_lib =
  fromtimestamp :: "real \<Rightarrow> error + datetime"
  fromisoformat :: "string \<Rightarrow> datetime option"
  strptime :: "string \<Rightarrow> string \<Rightarrow> datetime option"
  isoformat :: "datetime \<Rightarrow> string"

text \<open>Subtraction and comparison raise \<^verbatim>\<open>TypeError\<close> between a naive and an aware value.\<close>

fun total_seconds_between :: "datetime \<Rightarrow> datetime \<Rightarrow> error + real" where
  "total_seconds_between (Naive a) (Naive b) = Inr (a - b)"
| "total_seconds_between (Aware a) (Aware b) = Inr (a - b)"
| "total_seconds_between _ _ = Inl TypeError"

text \<open>\<^verbatim>\<open>s.replace(old, new)\<close> for a one-character \<^verbatim>\<open>old\<close>.\<close>

definition replace_char :: "char \<Rightarrow> string \<Rightarrow> string \<Rightarrow> string" where
  "replace_char old new s = concat (map (\<lambda>c. if c = old then new else [c]) s)"

text \<open>The loop over formats: the first format that parses wins.\<close>

fun try_formats :: "datetime_lib \<Rightarrow> string \<Rightarrow> string list \<Rightarrow> datetime option" where
  "try_formats lib s [] = None"
| "try_formats lib s (fmt # fmts) =
     (case strptime lib s fmt of Some d \<Rightarrow> Some d | None \<Rightarrow> try_formats lib s fmts)"

text \<open>
  \<^verbatim>\<open>AISGapDetector._parse_timestamp\<close>. Only \<^verbatim>\<open>ValueError\<close> and \<^verbatim>\<open>OSError\<close> of
  \<^verbatim>\<open>fromtimestamp\<close> are caught.
\<close>

fun parse_timestamp_gaps :: "datetime_lib \<Rightarrow> pyval \<Rightarrow> error + datetime option" where
  "parse_timestamp_gaps lib PNone = Inr None"
| "parse_timestamp_gaps lib (PNum t) =
     (case fromtimestamp lib t of
        Inr d \<Rightarrow> Inr (Some d)
      | Inl e \<Rightarrow> if e = ValueError then Inr None else if e = OSError then Inr None else Inl e)"
| "parse_timestamp_gaps lib (PStr s) =
     (case fromisoformat lib (replace_char CHR ''Z'' ''+00:00'' s) of
        Some d \<Rightarrow> Inr (Some d)
      | None \<Rightarrow> Inr (try_formats lib s [''%Y-%m-%dT%H:%M:%S'', ''%Y-%m-%d %H:%M:%S'', ''%Y-%m-%d'']))"

record gap_event =
  ge_vessel_id :: string
  ge_last_seen :: position
  ge_next_seen :: position
  ge_gap_start_time :: string
  ge_gap_end_time :: string
  ge_gap_duration_hours :: real
  ge_last_position :: "real option \<times> real option"
  ge_next_position :: "(real option \<times> real option) option"
  ge_points_before_gap :: nat

text \<open>
  \<^verbatim>\<open>sorted(positions, key=lambda x: x.get('timestamp', 0))\<close>. The built-in is a stable
  comparison sort that calls only \<^verbatim>\<open><\<close> on the keys and lets its \<^verbatim>\<open>TypeError\<close> through; the
  model is the stable insertion sort with the same comparison. Keys that are all numbers or all
  strings give the one stable ascending order; among two or more keys of which one is \<^verbatim>\<open>None\<close>
  or which mix numbers and strings, every comparison sort meets a pair that raises.
\<close>

definition timestamp_key :: "position \<Rightarrow> pyval" where
  "timestamp_key x = (case pos_timestamp x of None \<Rightarrow> PNum 0 | Some v \<Rightarrow> v)"

fun insert_sorted :: "position \<Rightarrow> position list \<Rightarrow> error + position list" where
  "insert_sorted x [] = Inr [x]"
| "insert_sorted x (y # ys) =
     (case py_lt (timestamp_key y) (timestamp_key x) of
        Inl e \<Rightarrow> Inl e
      | Inr b \<Rightarrow>
          if b then (case insert_sorted x ys of Inl e \<Rightarrow> Inl e | Inr r \<Rightarrow> Inr (y # r))
          else Inr (x # y # ys))"

fun sorted_by_timestamp :: "position list \<Rightarrow> error + position list" where
  "sorted_by_timestamp [] = Inr []"
| "sorted_by_timestamp (x # xs) =
     (case sorted_by_timestamp xs of Inl e \<Rightarrow> Inl e | Inr r \<Rightarrow> insert_sorted x r)"

text \<open>
  One round of the loop of \<^verbatim>\<open>detect_gaps_in_track\<close> at index \<open>i\<close>, for the pair
  \<^verbatim>\<open>positions[i]\<close>, \<^verbatim>\<open>positions[i + 1]\<close>: the events it appends. \<^verbatim>\<open>positions[i]['timestamp']\<close>
  raises \<^verbatim>\<open>KeyError\<close> on an absent key.
\<close>

definition gap_at ::
  "datetime_lib \<Rightarrow> real \<Rightarrow> string \<Rightarrow> int \<Rightarrow> nat \<Rightarrow> position \<Rightarrow> position
     \<Rightarrow> error + gap_event list" where
  "gap_at lib gap_threshold_hours vessel_id min_points_before i p q =
     (case pos_timestamp p of
        None \<Rightarrow> Inl KeyError
      | Some t1 \<Rightarrow>
          (case parse_timestamp_gaps lib t1 of
             Inl e \<Rightarrow> Inl e
           | Inr current_time \<Rightarrow>
               (case pos_timestamp q of
                  None \<Rightarrow> Inl KeyError
                | Some t2 \<Rightarrow>
                    (case parse_timestamp_gaps lib t2 of
                       Inl e \<Rightarrow> Inl e
                     | Inr next_time \<Rightarrow>
                         (case current_time of
                            None \<Rightarrow> Inr []
                          | Some ct \<Rightarrow>
                              (case next_time of
                                 None \<Rightarrow> Inr []
                               | Some nt \<Rightarrow>
                                   (case total_seconds_between nt ct of
                                      Inl e \<Rightarrow> Inl e
                                    | Inr secs \<Rightarrow>
                                        (let gap_duration = secs / 3600
                                         in if gap_threshold_hours \<le> gap_duration
                                            then if min_points_before \<le> int i
                                                 then Inr [\<lparr> ge_vessel_id = vessel_id,
                                                             ge_last_seen = p,
                                                             ge_next_seen = q,
                                                             ge_gap_start_time = isoformat lib ct,
                                                             ge_gap_end_time = isoformat lib nt,
                                                             ge_gap_duration_hours = gap_duration,
                                                             ge_last_position = (pos_lat p, pos_lon p),
                                                             ge_next_position =
                                                               Some (pos_lat q, pos_lon q),
                                                             ge_points_before_gap = i + 1 \<rparr>]
                                                 else Inr []
                                            else Inr []))))))))"

fun gaps_from ::
  "datetime_lib \<Rightarrow> real \<Rightarrow> string \<Rightarrow> int \<Rightarrow> nat \<Rightarrow> position list \<Rightarrow> error + gap_event list" where
  "gaps_from lib thr vid mpb i (p # q # rest) =
     (case gap_at lib thr vid mpb i p q of
        Inl e \<Rightarrow> Inl e
      | Inr found \<Rightarrow>
          (case gaps_from lib thr vid mpb (Suc i) (q # rest) of
             Inl e \<Rightarrow> Inl e
           | Inr later \<Rightarrow> Inr (found @ later)))"
| "gaps_from lib thr vid mpb i [p] = Inr []"
| "gaps_from lib thr vid mpb i [] = Inr []"

text \<open>
  \<^verbatim>\<open>AISGapDetector.detect_gaps_in_track\<close>; the second argument is the attribute
  \<^verbatim>\<open>self.gap_threshold_hours\<close>. The parameter \<^verbatim>\<open>min_points_before\<close> defaults to 5, and the one
  caller in the module, \<^verbatim>\<open>detect_gaps_from_json\<close>, leaves it at that.
\<close>

definition detect_gaps_in_track ::
  "datetime_lib \<Rightarrow> real \<Rightarrow> string \<Rightarrow> position list \<Rightarrow> int \<Rightarrow> error + gap_event list" where
  "detect_gaps_in_track lib gap_threshold_hours vessel_id positions min_points_before =
     (if length positions < 2 then Inr []
      else case sorted_by_timestamp positions of
             Inl e \<Rightarrow> Inl e
           | Inr sorted_positions \<Rightarrow>
               gaps_from lib gap_threshold_hours vessel_id min_points_before 0 sorted_positions)"

section \<open>Sequence building: \<^verbatim>\<open>ml/data/preprocess_tracks.py\<close>\<close>

text \<open>
  \<^verbatim>\<open>haversine_distance\<close>. In exact arithmetic \<open>a\<close> lies between 0 and 1; in the code it can
  round to a last bit above 1 for two points that are nearly antipodal, and \<^verbatim>\<open>math.sqrt(1-a)\<close>
  then raises \<^verbatim>\<open>ValueError\<close>.
\<close>

definition haversine_distance :: "real \<Rightarrow> real \<Rightarrow> real \<Rightarrow> real \<Rightarrow> error + real" where
  "haversine_distance lat1 lon1 lat2 lon2 =
     (let R = 6371;
          lat1_rad = radians lat1;
          lat2_rad = radians lat2;
          delta_lat = radians (lat2 - lat1);
          delta_lon = radians (lon2 - lon1);
          a = sin (delta_lat / 2) ^ 2 + cos lat1_rad * cos lat2_rad * sin (delta_lon / 2) ^ 2
      in case sqrt_py a of
           Inl e \<Rightarrow> Inl e
         | Inr root_a \<Rightarrow>
             (case sqrt_py (1 - a) of
                Inl e \<Rightarrow> Inl e
              | Inr root_1a \<Rightarrow> (let c = 2 * atan2 root_a root_1a in Inr (R * c))))"

text \<open>The operator \<^verbatim>\<open>%\<close> on floats with a positive right operand: the result lies in \<open>[0, m)\<close>.\<close>

definition py_mod :: "real \<Rightarrow> real \<Rightarrow> real" where
  "py_mod x m = x - m * of_int \<lfloor>x / m\<rfloor>"

definition calculate_bearing :: "real \<Rightarrow> real \<Rightarrow> real \<Rightarrow> real \<Rightarrow> real" where
  "calculate_bearing lat1 lon1 lat2 lon2 =
     (let lat1_rad = radians lat1;
          lat2_rad = radians lat2;
          delta_lon = radians (lon2 - lon1);
          x = sin delta_lon * cos lat2_rad;
          y = cos lat1_rad * sin lat2_rad - sin lat1_rad * cos lat2_rad * cos delta_lon;
          bearing = atan2 x y;
          bearing = degrees bearing;
          bearing = py_mod (bearing + 360) 360
      in bearing)"

text \<open>
  The module-level \<^verbatim>\<open>parse_timestamp\<close>. A falsy argument gives \<^verbatim>\<open>None\<close>; a number has no
  \<^verbatim>\<open>replace\<close>, and the \<^verbatim>\<open>AttributeError\<close> is caught; so is the \<^verbatim>\<open>ValueError\<close> of a parser.
\<close>

fun parse_timestamp :: "datetime_lib \<Rightarrow> pyval \<Rightarrow> datetime option" where
  "parse_timestamp lib PNone = None"
| "parse_timestamp lib (PNum x) = None"
| "parse_timestamp lib (PStr s) =
     (if s = [] then None
      else (let ts = replace_char CHR ''Z'' [] (replace_char CHR ''T'' '' '' s)
            in if length ts = 16 then strptime lib ts ''%Y-%m-%d %H:%M''
               else if length ts = 19 then strptime lib ts ''%Y-%m-%d %H:%M:%S''
               else fromisoformat lib (takeWhile (\<lambda>c. c \<noteq> CHR ''+'') ts)))"

fun datetime_gt :: "datetime \<Rightarrow> datetime \<Rightarrow> error + bool" where
  "datetime_gt (Naive a) (Naive b) = Inr (b < a)"
| "datetime_gt (Aware a) (Aware b) = Inr (b < a)"
| "datetime_gt _ _ = Inl TypeError"

text \<open>
  \<^verbatim>\<open>round(x, n)\<close>: Python rounds the exact value of the float it is given to the nearest
  multiple of \<open>10 ^ -n\<close>, a tie going to the even one, and returns the float nearest to that.
  The last step is a rounding of the result and is left out. A decimal tie such as 0.005 is not
  a float: the float written \<^verbatim>\<open>0.005\<close> lies above it and rounds to 0.01, as this function does
  on that float's exact value.
\<close>

definition py_round :: "real \<Rightarrow> nat \<Rightarrow> real" where
  "py_round x n = of_int (round_half_even (x * 10 ^ n)) / 10 ^ n"

record seq_point =
  sp_lat :: real
  sp_lon :: real
  sp_speed :: real
  sp_course :: real
  sp_timestamp :: pyval

text \<open>\<^verbatim>\<open>pos.get('timestamp', '')\<close>\<close>

definition get_timestamp :: "position \<Rightarrow> pyval" where
  "get_timestamp pos = (case pos_timestamp pos of None \<Rightarrow> PStr [] | Some v \<Rightarrow> v)"

text \<open>
  Python's slice \<^verbatim>\<open>xs[k:]\<close>: a negative \<open>k\<close> counts from the end, and \<^verbatim>\<open>xs[-0:]\<close> is
  \<^verbatim>\<open>xs[0:]\<close>, the whole list.
\<close>

definition slice_from :: "int \<Rightarrow> 'a list \<Rightarrow> 'a list" where
  "slice_from k xs = (if k < 0 then drop (length xs - nat (- k)) xs else drop (nat k) xs)"

text \<open>The loop that keeps the positions stamped before the start of the gap.\<close>

fun positions_before :: "string \<Rightarrow> position list \<Rightarrow> error + position list" where
  "positions_before gap_start_time [] = Inr []"
| "positions_before gap_start_time (pos # rest) =
     (let pos_time = get_timestamp pos
      in case (if truthy pos_time then py_lt pos_time (PStr gap_start_time) else Inr False) of
           Inl e \<Rightarrow> Inl e
         | Inr keep \<Rightarrow>
             (case positions_before gap_start_time rest of
                Inl e \<Rightarrow> Inl e
              | Inr kept \<Rightarrow> Inr (if keep then pos # kept else kept)))"

text \<open>
  Lines 95 to 113 of \<^verbatim>\<open>preprocess_gap_event\<close>: the raw positions, or the single stand-in built
  from \<^verbatim>\<open>last_seen\<close>. The first argument is the attribute \<^verbatim>\<open>self.sequence_length\<close>.
\<close>

definition select_raw_positions ::
  "int \<Rightarrow> gap_event \<Rightarrow> position list option \<Rightarrow> error + position list" where
  "select_raw_positions sequence_length gap_event positions =
     (let last_seen = ge_last_seen gap_event;
          gap_start_time = ge_gap_start_time gap_event;
          selected =
            (case positions of
               None \<Rightarrow> Inr []
             | Some ps \<Rightarrow>
                 if 1 < length ps
                 then (case positions_before gap_start_time ps of
                         Inl e \<Rightarrow> Inl e
                       | Inr raw \<Rightarrow> Inr (slice_from (- (sequence_length + 1)) raw))
                 else Inr [])
      in case selected of
           Inl e \<Rightarrow> Inl e
         | Inr raw_positions \<Rightarrow>
             if length raw_positions < 2
             then Inr [\<lparr> pos_lat = pos_lat last_seen, pos_lon = pos_lon last_seen,
                         pos_speed = None, pos_course = None,
                         pos_timestamp = Some (get_timestamp last_seen) \<rparr>]
             else Inr raw_positions)"

text \<open>The speed in knots between two stamped positions \<open>distance_km\<close> apart.\<close>

definition speed_between :: "datetime_lib \<Rightarrow> real \<Rightarrow> pyval \<Rightarrow> pyval \<Rightarrow> error + real" where
  "speed_between lib distance_km prev_time timestamp =
     (let t1 = parse_timestamp lib prev_time;
          t2 = parse_timestamp lib timestamp
      in case t1 of
           None \<Rightarrow> Inr 0
         | Some d1 \<Rightarrow>
             (case t2 of
                None \<Rightarrow> Inr 0
              | Some d2 \<Rightarrow>
                  (case datetime_gt d2 d1 of
                     Inl e \<Rightarrow> Inl e
                   | Inr later \<Rightarrow>
                       if later
                       then (case total_seconds_between d2 d1 of
                               Inl e \<Rightarrow> Inl e
                             | Inr secs \<Rightarrow>
                                 (let hours = secs / 3600
                                  in if 0 < hours then Inr (distance_km / hours / 1.852)
                                     else Inr 0))
                       else Inr 0)))"

text \<open>One round of the loop over \<^verbatim>\<open>raw_positions\<close>; \<open>prev\<close> is \<open>None\<close> in the round \<open>i = 0\<close>.\<close>

definition sequence_point :: "datetime_lib \<Rightarrow> position option \<Rightarrow> position \<Rightarrow> error + seq_point" where
  "sequence_point lib prev pos =
     (let lat = or_default (pos_lat pos) 0;
          lon = or_default (pos_lon pos) 0;
          timestamp = get_timestamp pos
      in case prev of
           None \<Rightarrow>
             Inr \<lparr> sp_lat = lat, sp_lon = lon, sp_speed = py_round 0 2, sp_course = py_round 0 1,
                   sp_timestamp = timestamp \<rparr>
         | Some prev_pos \<Rightarrow>
             (let prev_lat = or_default (pos_lat prev_pos) 0;
                  prev_lon = or_default (pos_lon prev_pos) 0;
                  prev_time = get_timestamp prev_pos
              in case haversine_distance prev_lat prev_lon lat lon of
                   Inl e \<Rightarrow> Inl e
                 | Inr distance_km \<Rightarrow>
                     (case speed_between lib distance_km prev_time timestamp of
                        Inl e \<Rightarrow> Inl e
                      | Inr speed \<Rightarrow>
                          (let course = (if 1 / 10 < distance_km
                                         then calculate_bearing prev_lat prev_lon lat lon
                                         else 0)
                           in Inr \<lparr> sp_lat = lat, sp_lon = lon, sp_speed = py_round speed 2,
                                   sp_course = py_round course 1, sp_timestamp = timestamp \<rparr>))))"

fun build_sequence :: "datetime_lib \<Rightarrow> position option \<Rightarrow> position list \<Rightarrow> error + seq_point list" where
  "build_sequence lib prev [] = Inr []"
| "build_sequence lib prev (pos # rest) =
     (case sequence_point lib prev pos of
        Inl e \<Rightarrow> Inl e
      | Inr pt \<Rightarrow>
          (case build_sequence lib (Some pos) rest of
             Inl e \<Rightarrow> Inl e
           | Inr pts \<Rightarrow> Inr (pt # pts)))"

text \<open>The copy of \<^verbatim>\<open>first_point\<close> with \<^verbatim>\<open>speed\<close> and \<^verbatim>\<open>course\<close> set to 0.\<close>

definition zero_kinematics :: "seq_point \<Rightarrow> seq_point" where
  "zero_kinematics first_point = first_point\<lparr>sp_speed := 0, sp_course := 0\<rparr>"

text \<open>
  The \<^verbatim>\<open>while\<close> loop that pads at the front; \<^verbatim>\<open>sequence[0]\<close> raises \<^verbatim>\<open>IndexError\<close> on an empty
  list.
\<close>

function pad_sequence :: "int \<Rightarrow> seq_point list \<Rightarrow> error + seq_point list" where
  "pad_sequence sequence_length s =
     (if int (length s) < sequence_length
      then (case s of
              [] \<Rightarrow> Inl IndexError
            | first_point # _ \<Rightarrow>
                pad_sequence sequence_length (zero_kinematics first_point # s))
      else Inr s)"
  by pat_completeness auto
termination
  by (relation "measure (\<lambda>(n, s). nat (n - int (length s)))") auto

declare pad_sequence.simps [simp del]

text \<open>Lines 158 to 167: drop what exceeds \<^verbatim>\<open>sequence_length\<close>, then pad.\<close>

definition fit_length :: "int \<Rightarrow> seq_point list \<Rightarrow> error + seq_point list" where
  "fit_length sequence_length s =
     pad_sequence sequence_length
       (if sequence_length < int (length s) then slice_from (- sequence_length) s else s)"

record preprocessed =
  out_vessel_id :: string
  out_sequence :: "seq_point list"
  out_last_position :: "real option \<times> real option"
  out_next_position :: "(real option \<times> real option) option"
  out_gap_duration_hours :: real
  out_gap_start_time :: string
  out_gap_end_time :: string
  out_sequence_length :: nat
  out_has_target :: bool
  out_unique_positions :: nat
  out_avg_speed_knots :: real

text \<open>
  \<^verbatim>\<open>TrackPreprocessor.preprocess_gap_event\<close>; the second argument is the attribute
  \<^verbatim>\<open>self.sequence_length\<close>, an \<^verbatim>\<open>int\<close> that the constructor does not check.
\<close>

definition preprocess_gap_event ::
  "datetime_lib \<Rightarrow> int \<Rightarrow> gap_event \<Rightarrow> position list option \<Rightarrow> error + preprocessed" where
  "preprocess_gap_event lib sequence_length gap_event positions =
     (case select_raw_positions sequence_length gap_event positions of
        Inl e \<Rightarrow> Inl e
      | Inr raw_positions \<Rightarrow>
          (case build_sequence lib None raw_positions of
             Inl e \<Rightarrow> Inl e
           | Inr derived \<Rightarrow>
               (case fit_length sequence_length derived of
                  Inl e \<Rightarrow> Inl e
                | Inr s \<Rightarrow>
                    Inr \<lparr> out_vessel_id = ge_vessel_id gap_event,
                          out_sequence = s,
                          out_last_position = ge_last_position gap_event,
                          out_next_position = ge_next_position gap_event,
                          out_gap_duration_hours = ge_gap_duration_hours gap_event,
                          out_gap_start_time = ge_gap_start_time gap_event,
                          out_gap_end_time = ge_gap_end_time gap_event,
                          out_sequence_length = length s,
                          out_has_target = (case ge_next_position gap_event of
                                              None \<Rightarrow> False | Some t \<Rightarrow> True),
                          out_unique_positions =
                            length (remdups (map (\<lambda>p. (sp_lat p, sp_lon p)) s)),
                          out_avg_speed_knots =
                            (if s = [] then 0
                             else py_round (sum_list (map sp_speed s) / real (length s)) 2) \<rparr>)))"

section \<open>Inputs named in the statements\<close>

text \<open>A constant offset added to the latitude and longitude of a raw row and of a request point.\<close>

definition shift_point :: "real \<Rightarrow> real \<Rightarrow> raw_point \<Rightarrow> raw_point" where
  "shift_point dlat dlon p = (rp_lat p + dlat, rp_lon p + dlon, rp_speed p, rp_course p)"








text \<open>
  The call \<^verbatim>\<open>baseline_model.predict(...)\<close> that the fallback of \<^verbatim>\<open>predict_path\<close> makes for a
  request.
\<close>

definition fallback_prediction :: "prediction_request \<Rightarrow> error + dr_result" where
  "fallback_prediction request =
     predict (1 / 10)
       (pp_lat (rq_last_position request), pp_lon (rq_last_position request))
       (or_default (pp_speed (rq_last_position request)) 5)
       (or_default (pp_course (rq_last_position request)) 0)
       (rq_gap_duration_hours request * clamp_aggression (rq_aggression_factor request))"

text \<open>
  An instance of the \<^verbatim>\<open>datetime\<close> parameters for numeric timestamps: the local zone is UTC, so
  \<open>fromtimestamp t\<close> is the naive value \<open>t\<close> seconds after the epoch. No string is parsed and
  nothing is printed in this instance; the tracks evaluated with it carry numbers only.
\<close>

definition utc_lib :: datetime_lib where
  "utc_lib = \<lparr> fromtimestamp = (\<lambda>t. Inr (Naive t)),
               fromisoformat = (\<lambda>s. None),
               strptime = (\<lambda>s fmt. None),
               isoformat = (\<lambda>d. []) \<rparr>"

text \<open>A position at the origin stamped with the Unix time \<open>t\<close>, in seconds.\<close>

definition position_at :: "real \<Rightarrow> position" where
  "position_at t =
     \<lparr> pos_lat = Some 0, pos_lon = Some 0, pos_speed = None, pos_course = None,
       pos_timestamp = Some (PNum t) \<rparr>"

text \<open>
  Positions as \<^verbatim>\<open>_extract_positions\<close> builds them, with \<^verbatim>\<open>'timestamp': None\<close> where the source
  record has neither \<^verbatim>\<open>timestamp\<close> nor \<^verbatim>\<open>time\<close>, and a position dictionary without the key.
\<close>

definition null_stamped :: position where
  "null_stamped =
     \<lparr> pos_lat = Some 1, pos_lon = Some 2, pos_speed = None, pos_course = None,
       pos_timestamp = Some PNone \<rparr>"

definition iso_stamped :: position where
  "iso_stamped =
     \<lparr> pos_lat = Some 1, pos_lon = Some 2, pos_speed = None, pos_course = None,
       pos_timestamp = Some (PStr ''2024-01-01T00:00:00Z'') \<rparr>"

definition unstamped :: position where
  "unstamped =
     \<lparr> pos_lat = Some 1, pos_lon = Some 2, pos_speed = None, pos_course = None,
       pos_timestamp = None \<rparr>"

text \<open>
  The gap event that the detector reports between the positions stamped 5 and 12 hours after
  the epoch, with its two times printed in ISO format.
\<close>

definition example_gap :: gap_event where
  "example_gap =
     \<lparr> ge_vessel_id = ''vessel'',
       ge_last_seen = position_at 18000,
       ge_next_seen = position_at 43200,
       ge_gap_start_time = ''1970-01-01T05:00:00'',
       ge_gap_end_time = ''1970-01-01T12:00:00'',
       ge_gap_duration_hours = 7,
       ge_last_position = (Some 0, Some 0),
       ge_next_position = Some (Some 0, Some 0),
       ge_points_before_gap = 2 \<rparr>"

text \<open>A position at the origin stamped with the string \<open>s\<close>.\<close>

definition iso_position :: "string \<Rightarrow> position" where
  "iso_position s =
     \<lparr> pos_lat = Some 0, pos_lon = Some 0, pos_speed = None, pos_course = None,
       pos_timestamp = Some (PStr s) \<rparr>"

section \<open>Properties\<close>

subsection \<open>Bounds on \<open>pi\<close>\<close>

lemma sin_poly6: "(\<Sum>m<6. sin_coeff m * (x::real) ^ m) = x - x^3 / 6 + x^5 / 120"
proof -
  have "{..<6::nat} = {0, 1, 2, 3, 4, 5}" by auto
  then show ?thesis
    by (simp add: sin_coeff_def fact_numeral)
qed

lemma sin_below_half: "sin (157/300 :: real) < 1/2"
proof -
  have "\<bar>sin (157/300::real) - (\<Sum>m<6. sin_coeff m * (157/300) ^ m)\<bar>
          \<le> inverse (fact 6) * \<bar>157/300\<bar> ^ 6"
    by (rule Maclaurin_sin_bound)
  then have "sin (157/300::real)
          \<le> (157/300 - (157/300)^3 / 6 + (157/300)^5 / 120) + inverse (fact 6) * \<bar>157/300\<bar> ^ 6"
    unfolding sin_poly6 by linarith
  also have "\<dots> < 1/2"
    by (simp add: fact_numeral power_divide)
  finally show ?thesis .
qed

lemma sin_above_half: "1/2 < sin (21/40 :: real)"
proof -
  have "\<bar>sin (21/40::real) - (\<Sum>m<6. sin_coeff m * (21/40) ^ m)\<bar>
          \<le> inverse (fact 6) * \<bar>21/40\<bar> ^ 6"
    by (rule Maclaurin_sin_bound)
  then have "sin (21/40::real)
          \<ge> (21/40 - (21/40)^3 / 6 + (21/40)^5 / 120) - inverse (fact 6) * \<bar>21/40\<bar> ^ 6"
    unfolding sin_poly6 by linarith
  moreover have "(21/40 - (21/40)^3 / 6 + (21/40)^5 / 120) - inverse (fact 6) * \<bar>21/40\<bar> ^ 6
          > (1/2::real)"
    by (simp add: fact_numeral power_divide)
  ultimately show ?thesis by linarith
qed

lemma pi_gt_314: "3.14 < pi"
proof (rule ccontr)
  assume "\<not> 3.14 < pi"
  then have le: "pi / 6 \<le> 157/300" by simp
  have "sin (pi/6) \<le> sin (157/300::real)"
    using le pi_ge_two by (intro sin_monotone_2pi_le) simp_all
  then show False using sin_below_half by (simp add: sin_30)
qed

lemma pi_lt_315: "pi < 3.15"
proof (rule ccontr)
  assume "\<not> pi < 3.15"
  then have le: "21/40 \<le> pi / 6" by simp
  have "sin (21/40::real) \<le> sin (pi/6)"
    using le by (intro sin_monotone_2pi_le) simp_all
  then show False using sin_above_half by (simp add: sin_30)
qed

subsection \<open>Dead reckoning\<close>

lemma atan2_sin_cos:
  assumes "- (pi / 2) < d" "d < pi / 2"
  shows "atan2 (sin d) (cos d) = d"
proof -
  have "0 < cos d" using assms by (rule cos_gt_zero_pi)
  then show ?thesis
    using arctan_tan [OF assms] by (simp add: atan2_def tan_def)
qed

lemma degrees_radians: "degrees (radians x) = x"
  by (simp add: degrees_def radians_def)

text \<open>
  Claim C7. Dead reckoning from the position (0, 0) at 10 knots on course 90 degrees over a gap
  of 6 hours, with the default uncertainty factor 0.1, returns latitude 0 and the longitude
  \<open>10800 / (3440.065 * pi)\<close> degrees east, which is within 0.01 of one degree; the distance
  travelled is 60 nautical miles and \<^verbatim>\<open>uncertainty_nm\<close> is \<open>5 + 0.1 * 6 * 10 = 11\<close>.
\<close>

theorem dead_reckoning_scenario:
  "predict (1 / 10) (0, 0) 10 90 6 =
     Inr \<lparr> dr_predicted_position = (0, 10800 / (3440.065 * pi)), dr_uncertainty_nm = 11,
           dr_uncertainty_degrees = (11 / 60, 11 / 60),
           dr_distance_traveled_nm = 60, dr_method = ''dead_reckoning'' \<rparr>
   \<and> \<bar>10800 / (3440.065 * pi) - 1\<bar> < 1 / 100
   \<and> 5 + (1 / 10) * 6 * 10 = (11 :: real)"
proof -
  let ?d = "12000 / 688013 :: real"
  have d: "- (pi / 2) < ?d" "?d < pi / 2"
    using pi_ge_two by simp_all
  have e: "atan2 (sin ?d) (cos ?d) = ?d" using d by (rule atan2_sin_cos)
  have p: "predict (1 / 10) (0, 0) 10 90 6 =
     Inr \<lparr> dr_predicted_position = (0, 10800 / (3440.065 * pi)), dr_uncertainty_nm = 11,
           dr_uncertainty_degrees = (11 / 60, 11 / 60),
           dr_distance_traveled_nm = 60, dr_method = ''dead_reckoning'' \<rparr>"
    by (simp add: predict_def asin_def py_div_def radians_def degrees_def Let_def e)
  have "10800 < (101 / 100) * (3440.065 * pi)" "(99 / 100) * (3440.065 * pi) < 10800"
    using pi_gt_314 pi_lt_315 by simp_all
  then have "10800 / (3440.065 * pi) < 101 / 100" "99 / 100 < 10800 / (3440.065 * pi)"
    by (simp_all add: pos_divide_less_eq pos_less_divide_eq)
  then have a: "\<bar>10800 / (3440.065 * pi) - 1\<bar> < 1 / 100" by linarith
  show ?thesis using p a by simp
qed

text \<open>
  Claim C10. With \<^verbatim>\<open>last_speed = 0\<close> dead reckoning is a fixed point: for every latitude strictly
  between -90 and 90 degrees, every longitude, course, gap duration and uncertainty factor, the
  predicted position is the input position, the distance travelled is 0 and \<^verbatim>\<open>uncertainty_nm\<close>
  is the base value 5.
\<close>

theorem zero_speed_fixed_point:
  assumes "- 90 < lat" "lat < 90"
  shows "predict uf (lat, lon) 0 course gap =
         Inr \<lparr> dr_predicted_position = (lat, lon), dr_uncertainty_nm = 5,
               dr_uncertainty_degrees = (5 / 60, 5 / (60 * cos (radians lat))),
               dr_distance_traveled_nm = 0, dr_method = ''dead_reckoning'' \<rparr>"
proof -
  have "(- 90) * pi < lat * pi"
    using assms(1) pi_gt_zero by (rule mult_strict_right_mono)
  moreover have "lat * pi < 90 * pi"
    using assms(2) pi_gt_zero by (rule mult_strict_right_mono)
  ultimately have r: "- (pi / 2) < radians lat" "radians lat < pi / 2"
    by (simp_all add: radians_def)
  have c: "0 < cos (radians lat)" using r by (rule cos_gt_zero_pi)
  have a: "arcsin (sin (radians lat)) = radians lat"
    using r by (intro arcsin_sin) simp_all
  have s: "1 - sin (radians lat) * sin (radians lat) = cos (radians lat) * cos (radians lat)"
    using sin_cos_squared_add [of "radians lat"] by (simp add: power2_eq_square algebra_simps)
  have "0 < cos (radians lat) * cos (radians lat)" using c by simp
  then have lt: "sin (radians lat) * sin (radians lat) < 1" using s by linarith
  have ne: "cos (radians lat) \<noteq> 0" using c by simp
  show ?thesis
    by (simp add: predict_def asin_def a atan2_def py_div_def degrees_radians Let_def lt ne)
qed

theorem zero_speed_fixed_point_witness:
  "- 90 < (0::real) \<and> (0::real) < 90
   \<and> predict (1 / 10) (0, 25) 0 135 8 =
       Inr \<lparr> dr_predicted_position = (0, 25), dr_uncertainty_nm = 5,
             dr_uncertainty_degrees = (5 / 60, 5 / 60),
             dr_distance_traveled_nm = 0, dr_method = ''dead_reckoning'' \<rparr>"
proof -
  have h: "- 90 < (0::real)" "(0::real) < 90" by simp_all
  show ?thesis
    using h zero_speed_fixed_point [OF h, of "1 / 10" 25 135 8] by (simp add: radians_def)
qed

subsection \<open>The target transform and its inverse\<close>






subsection \<open>The input transform\<close>

lemma rp_shift [simp]:
  "rp_lat (shift_point a b p) = rp_lat p + a"
  "rp_lon (shift_point a b p) = rp_lon p + b"
  "rp_speed (shift_point a b p) = rp_speed p"
  "rp_course (shift_point a b p) = rp_course p"
  by (simp_all add: shift_point_def rp_lat_def rp_lon_def rp_speed_def rp_course_def)

















subsection \<open>The probability cloud of the server\<close>

lemma sum_list_pos_real:
  fixes xs :: "real list"
  assumes "xs \<noteq> []" "\<And>x. x \<in> set xs \<Longrightarrow> 0 < x"
  shows "0 < sum_list xs"
  using assms
proof (induction xs)
  case Nil
  then show ?case by simp
next
  case (Cons a xs)
  have "0 \<le> sum_list xs"
    using Cons.prems(2) by (intro sum_list_nonneg) (auto intro: less_imp_le)
  moreover have "0 < a" using Cons.prems(2) by simp
  ultimately show ?case by simp
qed

lemma sum_list_scaled:
  "sum_list (map (\<lambda>f. probability f / t) fs) = sum_list (map probability fs) / t"
  by (induction fs) (simp_all add: add_divide_distrib)

lemma cloud_cell_pos: "0 < probability (cloud_cell lat lon ul uo n i j)"
  by (simp add: cloud_cell_def Let_def)

lemma length_concat_square:
  "length (concat (map (\<lambda>i. map (f i) [0..<n]) [0..<m])) = m * n"
  by (induction m) simp_all

lemma cloud_features_length: "length (cloud_features lat lon ul uo) = 900"
  unfolding cloud_features_def Let_def by (simp only: length_concat_square)

lemma cloud_features_total: "0 < sum_list (map probability (cloud_features lat lon ul uo))"
proof (rule sum_list_pos_real)
  have "length (cloud_features lat lon ul uo) \<noteq> 0"
    by (simp only: cloud_features_length)
  then show "map probability (cloud_features lat lon ul uo) \<noteq> []" by auto
next
  fix x assume "x \<in> set (map probability (cloud_features lat lon ul uo))"
  then show "0 < x"
    unfolding cloud_features_def Let_def by (auto simp: cloud_cell_pos)
qed

lemma server_cloud_ok:
  "\<exists>fs. generate_probability_cloud lat lon ul uo = Inr fs \<and> length fs = 30 * 30
        \<and> sum_list (map probability fs) = 1"
proof -
  let ?t = "sum_list (map probability (cloud_features lat lon ul uo))"
  have "?t \<noteq> 0" using cloud_features_total [of lat lon ul uo] by simp
  then show ?thesis
    by (simp add: generate_probability_cloud_def Let_def cloud_features_length sum_list_scaled
        comp_def)
qed

subsection \<open>The prediction request\<close>

lemma clamp_idem: "clamp_aggression (clamp_aggression a) = clamp_aggression a"
  by (simp add: clamp_aggression_def)

lemma clamp_range: "1/4 \<le> clamp_aggression a" "clamp_aggression a \<le> 10"
  by (simp_all add: clamp_aggression_def)

lemma lstm_branch_aggr [simp]:
  "lstm_branch m nz (r\<lparr>rq_aggression_factor := a\<rparr>) g = lstm_branch m nz r g"
  by (simp add: lstm_branch_def)

lemma baseline_branch_aggr [simp]:
  "baseline_branch (r\<lparr>rq_aggression_factor := a\<rparr>) g = baseline_branch r g"
  by (simp add: baseline_branch_def)

text \<open>
  Claim C9. The aggression factor is clamped to \<open>[0.25, 10]\<close>: 0.1 becomes 0.25, 50 becomes 10
  and 1 stays 1; and \<^verbatim>\<open>predict_path\<close> reads the factor only through the clamp, so a request with
  any factor \<open>a\<close>, in range or not, is answered exactly as the same request with the clamped
  factor is: no value is rejected for being out of range.
\<close>

theorem aggression_clamped:
  "1 / 4 \<le> clamp_aggression a \<and> clamp_aggression a \<le> 10
   \<and> clamp_aggression (1 / 10) = 1 / 4 \<and> clamp_aggression 50 = 10 \<and> clamp_aggression 1 = 1
   \<and> predict_path st (request\<lparr>rq_aggression_factor := a\<rparr>)
       = predict_path st (request\<lparr>rq_aggression_factor := clamp_aggression a\<rparr>)"
proof -
  have "predict_path st (request\<lparr>rq_aggression_factor := a\<rparr>)
       = predict_path st (request\<lparr>rq_aggression_factor := clamp_aggression a\<rparr>)"
    by (simp add: predict_path_def clamp_idem Let_def cong: option.case_cong sum.case_cong)
  moreover have "clamp_aggression (1 / 10) = 1 / 4" "clamp_aggression 50 = 10"
    "clamp_aggression 1 = 1"
    by (simp_all add: clamp_aggression_def)
  ultimately show ?thesis using clamp_range [of a] by simp
qed



text \<open>An exception of the dead-reckoning call is not caught: the request fails with it.\<close>

lemma fallback_raises:
  assumes "lstm_model st = None" "fallback_prediction request = Inl e"
  shows "predict_path st request = Inl e"
proof -
  let ?g = "clamp_aggression (rq_aggression_factor request)"
  let ?lp = "rq_last_position request"
  have d: "predict (1/10) (pp_lat ?lp, pp_lon ?lp) (or_default (pp_speed ?lp) 5)
        (or_default (pp_course ?lp) 0) (rq_gap_duration_hours request * ?g) = Inl e"
    using assms(2) by (simp add: fallback_prediction_def)
  show ?thesis
    by (simp add: predict_path_def assms(1) baseline_branch_def d Let_def)
qed





subsection \<open>The probability cloud of the generator\<close>

lemma map_nth_fun: "map (\<lambda>j. f (r ! j)) [0..<length r] = map f r"
proof -
  have "map (\<lambda>j. f (r ! j)) [0..<length r] = map f (map (\<lambda>j. r ! j) [0..<length r])"
    by (simp add: comp_def)
  then show ?thesis by (simp add: map_nth)
qed

lemma square_by_index:
  assumes "length M = m" "\<And>r. r \<in> set M \<Longrightarrow> length r = m"
  shows "map (\<lambda>i. map (\<lambda>j. f (M ! i ! j)) [0..<m]) [0..<m] = map (map f) M"
proof -
  have "map (\<lambda>i. map (\<lambda>j. f (M ! i ! j)) [0..<m]) [0..<m]
          = map (\<lambda>i. map f (M ! i)) [0..<m]"
  proof (rule map_cong [OF refl])
    fix i assume "i \<in> set [0..<m]"
    then have "M ! i \<in> set M" using assms(1) by simp
    then have "length (M ! i) = m" by (rule assms(2))
    then show "map (\<lambda>j. f (M ! i ! j)) [0..<m] = map f (M ! i)"
      using map_nth_fun [of f "M ! i"] by simp
  qed
  also have "\<dots> = map (map f) M"
    using map_nth_fun [of "map f" M] assms(1) by simp
  finally show ?thesis .
qed

lemma linspace_ok:
  assumes "0 \<le> n"
  shows "\<exists>xs. linspace a b n = Inr xs \<and> length xs = nat n"
  using assms by (auto simp: linspace_def)

lemma sum_list_divide_const:
  "sum_list (map (\<lambda>v. v / t) (xs :: real list)) = sum_list xs / t"
  by (induction xs) (simp_all add: add_divide_distrib)

lemma sum_list_concat_scaled:
  "sum_list (concat (map (map (\<lambda>v. v / t)) (P :: real list list))) = sum_list (concat P) / t"
  by (induction P) (simp_all add: add_divide_distrib sum_list_divide_const)

text \<open>The matrix of densities, read off the two meshes.\<close>

lemma mesh_probability:
  "map (\<lambda>(r1, r2). map (\<lambda>(a, b). g a b) (zip r1 r2))
     (zip (map (map f1) (map (\<lambda>la. map (\<lambda>lo. la) LO) LA))
          (map (map f2) (map (\<lambda>la. LO) LA)))
   = map (\<lambda>la. map (\<lambda>lo. g (f1 la) (f2 lo)) LO) LA"
  by (induction LA) (simp_all add: zip_map_map comp_def zip_same_conv_map)

lemma generator_cloud:
  assumes "1 \<le> n"
  shows "\<exists>c. generate_from_prediction n k (lat, lon) (ul, uo) = Inr c
           \<and> length (cl_features c) = nat n * nat n
           \<and> sum_list (map probability (cl_features c)) = 1"
proof -
  let ?m = "nat n"
  obtain LA where LA: "linspace (lat - ul * k * 2 / 2) (lat + ul * k * 2 / 2) n = Inr LA"
      "length LA = ?m"
    using linspace_ok [of n] assms by force
  obtain LO where LO: "linspace (lon - uo * k * 2 / 2) (lon + uo * k * 2 / 2) n = Inr LO"
      "length LO = ?m"
    using linspace_ok [of n] assms by force
  define E where "E = (\<lambda>la lo. exp (- (1 / 2) * (((la - lat) / ul) ^ 2 + ((lo - lon) / uo) ^ 2)))"
  define P where "P = map (\<lambda>la. map (\<lambda>lo. E la lo) LO) LA"
  define t where "t = sum_list (concat P)"
  define Pn where "Pn = map (map (\<lambda>v. v / t)) P"
  have P_eq: "map (\<lambda>(r1, r2). map (\<lambda>(a, b). exp (- (1 / 2) * (a ^ 2 + b ^ 2))) (zip r1 r2))
     (zip (map (map (\<lambda>v. (v - lat) / ul)) (map (\<lambda>la. map (\<lambda>lo. la) LO) LA))
          (map (map (\<lambda>v. (v - lon) / uo)) (map (\<lambda>la. LO) LA))) = P"
    unfolding P_def E_def by (rule mesh_probability)
  have ne: "LA \<noteq> []" "LO \<noteq> []" using LA(2) LO(2) assms by auto
  have "0 < t"
    unfolding t_def
  proof (rule sum_list_pos_real)
    show "concat P \<noteq> []" using ne by (cases LA; cases LO) (simp_all add: P_def)
    fix x assume "x \<in> set (concat P)"
    then show "0 < x" by (auto simp: P_def E_def)
  qed
  then have t0: "t \<noteq> 0" by simp
  have lenPn: "length Pn = ?m" by (simp add: Pn_def P_def LA(2))
  have rowPn: "\<And>r. r \<in> set Pn \<Longrightarrow> length r = ?m"
    by (auto simp: Pn_def P_def LO(2))
  let ?F = "concat (map (\<lambda>i. map (\<lambda>j. \<lparr> coordinates = (map (\<lambda>la. LO) LA ! i ! j,
                                               map (\<lambda>la. map (\<lambda>lo. la) LO) LA ! i ! j),
                                    probability = Pn ! i ! j \<rparr>) [0..<?m]) [0..<?m])"
  have gen: "generate_from_prediction n k (lat, lon) (ul, uo) =
      Inr \<lparr> cl_features = ?F, cl_grid_size = n, cl_predicted_position = (lat, lon),
            cl_uncertainty_degrees = (ul, uo) \<rparr>"
    unfolding generate_from_prediction_def Let_def fst_conv snd_conv LA(1) LO(1) sum.case P_eq
      t_def [symmetric] Pn_def [symmetric]
    by (rule refl)
  have len: "length ?F = ?m * ?m" by (rule length_concat_square)
  have "map probability ?F = concat (map (\<lambda>i. map (\<lambda>j. Pn ! i ! j) [0..<?m]) [0..<?m])"
    by (simp add: map_concat comp_def)
  also have "\<dots> = concat (map (map (\<lambda>v. v)) Pn)"
    using square_by_index [OF lenPn rowPn, of "\<lambda>v. v"] by simp
  also have "\<dots> = concat Pn" by simp
  finally have "sum_list (map probability ?F) = sum_list (concat Pn)" by simp
  also have "\<dots> = t / t" unfolding Pn_def t_def by (rule sum_list_concat_scaled)
  also have "\<dots> = 1" using t0 by simp
  finally have s: "sum_list (map probability ?F) = 1" .
  show ?thesis unfolding gen using len s by simp
qed

text \<open>
  Claim C6, as the code has it. For every centre, every pair of strictly positive
  uncertainties, every \<^verbatim>\<open>num_std\<close> and every grid size of at least 1, the generator returns
  \<^verbatim>\<open>grid_size\<close> times \<^verbatim>\<open>grid_size\<close> points whose probabilities sum to 1; and the cloud of the
  prediction server, whose grid is fixed at 30 by 30, has 900 points whose probabilities sum
  to 1. The sums are exact in real arithmetic.
\<close>

theorem cloud_sums_to_one:
  assumes "1 \<le> grid_size" "0 < unc_lat" "0 < unc_lon"
  shows "(\<exists>c. generate_from_prediction grid_size num_std (lat, lon) (unc_lat, unc_lon) = Inr c
            \<and> length (cl_features c) = nat grid_size * nat grid_size
            \<and> sum_list (map probability (cl_features c)) = 1)
         \<and> (\<exists>fs. generate_probability_cloud lat lon unc_lat unc_lon = Inr fs
            \<and> length fs = 30 * 30
            \<and> sum_list (map probability fs) = 1)"
  using generator_cloud [OF assms(1)] server_cloud_ok by blast

theorem cloud_sums_to_one_witness:
  "1 \<le> (10::int) \<and> 0 < (1 / 10 :: real)
   \<and> (\<exists>c. generate_from_prediction 10 2 (0, 0) (1 / 10, 1 / 10) = Inr c
            \<and> length (cl_features c) = 100
            \<and> sum_list (map probability (cl_features c)) = 1)
   \<and> (\<exists>fs. generate_probability_cloud 0 0 (1 / 10) (1 / 10) = Inr fs
            \<and> length fs = 900
            \<and> sum_list (map probability fs) = 1)"
proof -
  have h: "1 \<le> (10::int)" "0 < (1 / 10 :: real)" by simp_all
  show ?thesis
    using h cloud_sums_to_one [OF h(1) h(2) h(2), of 2 0 0] by simp
qed

text \<open>
  The claim as stated fails on the empty grid: with \<^verbatim>\<open>grid_size = 0\<close> the generator returns no
  point, and the probabilities of no point sum to 0.
\<close>

theorem cloud_sums_to_one_counterexample:
  "generate_from_prediction 0 2 (0, 0) (1 / 10, 1 / 10) =
      Inr \<lparr> cl_features = [], cl_grid_size = 0, cl_predicted_position = (0, 0),
            cl_uncertainty_degrees = (1 / 10, 1 / 10) \<rparr>
   \<and> \<not> \<bar>sum_list (map probability ([] :: feature list)) - 1\<bar> \<le> 1 / 1000000"
  by (simp add: generate_from_prediction_def linspace_def Let_def)

subsection \<open>Gap detection\<close>

text \<open>
  Claim C2, as the code has it. With the threshold at 6 hours, a track of exactly three
  positions stamped 0, 5 and 12 hours after the epoch (in seconds, read by \<^verbatim>\<open>fromtimestamp\<close> in
  one zone) yields no event for the first pair, and for the pair from 5 to 12 hours one event
  of 7 hours with \<^verbatim>\<open>points_before_gap = 2\<close>, provided \<^verbatim>\<open>min_points_before\<close> is at most 1, the
  index of that pair; with a larger \<^verbatim>\<open>min_points_before\<close>, the default 5 included, the result
  is empty.
\<close>

theorem three_report_track:
  assumes "pos_timestamp p0 = Some (PNum 0)" "pos_timestamp p5 = Some (PNum 18000)"
    "pos_timestamp p12 = Some (PNum 43200)"
    "fromtimestamp lib 0 = Inr (Naive b)" "fromtimestamp lib 18000 = Inr (Naive (b + 18000))"
    "fromtimestamp lib 43200 = Inr (Naive (b + 43200))"
  shows "detect_gaps_in_track lib 6 vid [p0, p5, p12] min_points_before =
     Inr (if min_points_before \<le> 1
          then [\<lparr> ge_vessel_id = vid, ge_last_seen = p5, ge_next_seen = p12,
                   ge_gap_start_time = isoformat lib (Naive (b + 18000)),
                   ge_gap_end_time = isoformat lib (Naive (b + 43200)),
                   ge_gap_duration_hours = 7,
                   ge_last_position = (pos_lat p5, pos_lon p5),
                   ge_next_position = Some (pos_lat p12, pos_lon p12),
                   ge_points_before_gap = 2 \<rparr>]
          else [])"
proof -
  have s: "sorted_by_timestamp [p0, p5, p12] = Inr [p0, p5, p12]"
    by (simp add: timestamp_key_def assms)
  have g1: "gap_at lib 6 vid min_points_before 0 p0 p5 = Inr []"
    by (simp add: gap_at_def assms)
  have g2: "gap_at lib 6 vid min_points_before (Suc 0) p5 p12 =
     Inr (if min_points_before \<le> 1
          then [\<lparr> ge_vessel_id = vid, ge_last_seen = p5, ge_next_seen = p12,
                   ge_gap_start_time = isoformat lib (Naive (b + 18000)),
                   ge_gap_end_time = isoformat lib (Naive (b + 43200)),
                   ge_gap_duration_hours = 7,
                   ge_last_position = (pos_lat p5, pos_lon p5),
                   ge_next_position = Some (pos_lat p12, pos_lon p12),
                   ge_points_before_gap = 2 \<rparr>]
          else [])"
    by (simp add: gap_at_def assms Let_def)
  show ?thesis
    unfolding detect_gaps_in_track_def s by (simp add: g1 g2)
qed

theorem three_report_track_witness:
  "pos_timestamp (position_at 0) = Some (PNum 0)
   \<and> pos_timestamp (position_at 18000) = Some (PNum 18000)
   \<and> pos_timestamp (position_at 43200) = Some (PNum 43200)
   \<and> fromtimestamp utc_lib 0 = Inr (Naive 0)
   \<and> fromtimestamp utc_lib 18000 = Inr (Naive (0 + 18000))
   \<and> fromtimestamp utc_lib 43200 = Inr (Naive (0 + 43200))
   \<and> detect_gaps_in_track utc_lib 6 ''vessel''
        [position_at 0, position_at 18000, position_at 43200] 1 =
      Inr [\<lparr> ge_vessel_id = ''vessel'', ge_last_seen = position_at 18000,
               ge_next_seen = position_at 43200,
               ge_gap_start_time = isoformat utc_lib (Naive (0 + 18000)),
               ge_gap_end_time = isoformat utc_lib (Naive (0 + 43200)),
               ge_gap_duration_hours = 7,
               ge_last_position = (pos_lat (position_at 18000), pos_lon (position_at 18000)),
               ge_next_position = Some (pos_lat (position_at 43200), pos_lon (position_at 43200)),
               ge_points_before_gap = 2 \<rparr>]"
proof -
  have h: "pos_timestamp (position_at 0) = Some (PNum 0)"
    "pos_timestamp (position_at 18000) = Some (PNum 18000)"
    "pos_timestamp (position_at 43200) = Some (PNum 43200)"
    "fromtimestamp utc_lib 0 = Inr (Naive 0)"
    "fromtimestamp utc_lib 18000 = Inr (Naive (0 + 18000))"
    "fromtimestamp utc_lib 43200 = Inr (Naive (0 + 43200))"
    by (simp_all add: position_at_def utc_lib_def)
  have "detect_gaps_in_track utc_lib 6 ''vessel''
        [position_at 0, position_at 18000, position_at 43200] 1 =
      Inr [\<lparr> ge_vessel_id = ''vessel'', ge_last_seen = position_at 18000,
               ge_next_seen = position_at 43200,
               ge_gap_start_time = isoformat utc_lib (Naive (0 + 18000)),
               ge_gap_end_time = isoformat utc_lib (Naive (0 + 43200)),
               ge_gap_duration_hours = 7,
               ge_last_position = (pos_lat (position_at 18000), pos_lon (position_at 18000)),
               ge_next_position = Some (pos_lat (position_at 43200), pos_lon (position_at 43200)),
               ge_points_before_gap = 2 \<rparr>]"
    unfolding three_report_track [OF h, of "''vessel''" 1] by simp
  then show ?thesis using h by blast
qed

text \<open>
  The claim as stated fails when the detector is run the way its module runs it: with the
  default \<^verbatim>\<open>min_points_before = 5\<close> the three-position track yields no gap event.
\<close>

theorem three_report_track_counterexample:
  "detect_gaps_in_track utc_lib 6 ''vessel''
     [position_at 0, position_at 18000, position_at 43200] 5 = Inr []"
  by (simp add: detect_gaps_in_track_def timestamp_key_def gap_at_def position_at_def utc_lib_def
      Let_def)

lemma py_lt_error: "py_lt a b = Inl e \<Longrightarrow> e = TypeError"
  by (cases "(a, b)" rule: py_lt.cases) simp_all

lemma py_lt_none: "py_lt PNone b = Inl TypeError" "py_lt a PNone = Inl TypeError"
  by (cases b; simp) (cases a; simp)

lemma insert_sorted_error: "insert_sorted x ys = Inl e \<Longrightarrow> e = TypeError"
  by (induction ys) (auto split: sum.splits if_splits dest: py_lt_error)

lemma sorted_by_timestamp_error: "sorted_by_timestamp ps = Inl e \<Longrightarrow> e = TypeError"
  by (induction ps) (auto split: sum.splits dest: insert_sorted_error)

lemma insert_sorted_length: "insert_sorted x ys = Inr r \<Longrightarrow> length r = Suc (length ys)"
  by (induction ys arbitrary: r) (auto split: sum.splits if_splits)

lemma sorted_by_timestamp_length: "sorted_by_timestamp ps = Inr r \<Longrightarrow> length r = length ps"
proof (induction ps arbitrary: r)
  case Nil
  then show ?case by simp
next
  case (Cons x xs)
  then obtain r' where r': "sorted_by_timestamp xs = Inr r'" "insert_sorted x r' = Inr r"
    by (auto split: sum.splits)
  from Cons.IH [OF r'(1)] insert_sorted_length [OF r'(2)] show ?case by simp
qed

text \<open>
  In a track of two or more positions, one \<^verbatim>\<open>None\<close> among the timestamps is enough to make the
  sort, and so the detector, raise \<^verbatim>\<open>TypeError\<close>.
\<close>

lemma sort_raises_on_none:
  assumes "2 \<le> length ps" "PNone \<in> set (map timestamp_key ps)"
  shows "sorted_by_timestamp ps = Inl TypeError"
  using assms
proof (induction ps)
  case Nil
  then show ?case by simp
next
  case (Cons x xs)
  show ?case
  proof (cases "sorted_by_timestamp xs")
    case (Inl e)
    then show ?thesis using sorted_by_timestamp_error [OF Inl] by simp
  next
    case (Inr r)
    have len: "length r = length xs" using Inr by (rule sorted_by_timestamp_length)
    then obtain y rs where r: "r = y # rs" using Cons.prems(1) by (cases r) auto
    show ?thesis
    proof (cases "PNone \<in> set (map timestamp_key xs)")
      case True
      then have "\<not> 2 \<le> length xs" using Cons.IH Inr by auto
      then obtain z where xs: "xs = [z]" using len r by (cases xs; cases "tl xs") auto
      then have "timestamp_key z = PNone" using True by simp
      then show ?thesis by (simp add: xs py_lt_none)
    next
      case False
      then have "timestamp_key x = PNone" using Cons.prems(2) by auto
      then show ?thesis by (simp add: Inr r py_lt_none)
    qed
  qed
qed

lemma detect_raises_on_none:
  assumes "2 \<le> length ps" "PNone \<in> set (map timestamp_key ps)"
  shows "detect_gaps_in_track lib thr vid ps mpb = Inl TypeError"
  using assms sort_raises_on_none [OF assms] by (simp add: detect_gaps_in_track_def)

text \<open>
  Claim C3 does not hold of the code. A track of two positions whose \<^verbatim>\<open>timestamp\<close> is
  \<^verbatim>\<open>None\<close> in one or in both makes the sort raise \<^verbatim>\<open>TypeError\<close>, and a track of positions
  without the key passes the sort (the key defaults to 0) and then raises \<^verbatim>\<open>KeyError\<close> at
  \<^verbatim>\<open>positions[i]['timestamp']\<close>; this for every threshold, vessel and \<^verbatim>\<open>min_points_before\<close>.
\<close>

theorem missing_timestamp_raises:
  "detect_gaps_in_track lib thr vid [null_stamped, iso_stamped] mpb = Inl TypeError
   \<and> detect_gaps_in_track lib thr vid [null_stamped, null_stamped] mpb = Inl TypeError
   \<and> detect_gaps_in_track lib thr vid [unstamped, unstamped] mpb = Inl KeyError"
  by (simp add: detect_gaps_in_track_def timestamp_key_def gap_at_def null_stamped_def
      iso_stamped_def unstamped_def)

subsection \<open>Sequence building\<close>

lemma select_raw_positions_nonempty:
  "select_raw_positions n ge ps = Inr raw \<Longrightarrow> raw \<noteq> []"
  by (auto simp: select_raw_positions_def Let_def split: option.splits sum.splits if_splits)

lemma build_sequence_length: "build_sequence lib prev raw = Inr s \<Longrightarrow> length s = length raw"
  by (induction raw arbitrary: prev s) (auto split: sum.splits)

lemma zero_kinematics_idem: "zero_kinematics (zero_kinematics p) = zero_kinematics p"
  by (simp add: zero_kinematics_def)

lemma pad_sequence_eq:
  assumes "s \<noteq> []"
  shows "pad_sequence n s
           = Inr (replicate (nat (n - int (length s))) (zero_kinematics (hd s)) @ s)"
  using assms
proof (induction "nat (n - int (length s))" arbitrary: s)
  case 0
  then show ?case by (simp add: pad_sequence.simps)
next
  case (Suc k)
  obtain p rest where s: "s = p # rest" using Suc.prems by (cases s) auto
  have lt: "int (length s) < n" using Suc.hyps(2) by linarith
  have k: "k = nat (n - int (length (zero_kinematics p # s)))" using Suc.hyps(2) by simp
  have "pad_sequence n s = pad_sequence n (zero_kinematics p # s)"
    using lt by (subst pad_sequence.simps) (simp add: s)
  also have "\<dots> = Inr (replicate k (zero_kinematics (hd (zero_kinematics p # s)))
                        @ (zero_kinematics p # s))"
    using Suc.hyps(1) [OF k] k by simp
  also have "\<dots> = Inr (replicate (Suc k) (zero_kinematics p) @ s)"
    by (simp add: zero_kinematics_idem replicate_app_Cons_same)
  finally show ?case using Suc.hyps(2) s by simp
qed

lemma fit_length_eq:
  assumes "s \<noteq> []" "1 \<le> n"
  shows "fit_length n s =
     Inr (if n < int (length s) then drop (length s - nat n) s
          else replicate (nat n - length s) (zero_kinematics (hd s)) @ s)"
proof (cases "n < int (length s)")
  case True
  have l: "int (length (drop (length s - nat n) s)) = n" using assms(2) True by simp
  show ?thesis
    using True assms(2) l
    by (simp add: fit_length_def slice_from_def
        pad_sequence.simps [of n "drop (length s - nat n) s"])
next
  case False
  have "nat (n - int (length s)) = nat n - length s" by simp
  then show ?thesis
    using False pad_sequence_eq [OF assms(1), of n] by (simp add: fit_length_def)
qed

lemma py_round_zero: "py_round 0 n = 0"
  by (simp add: py_round_def round_half_even_def Let_def)

lemma haversine_same_point: "haversine_distance 0 0 0 0 = Inr 0"
  by (simp add: haversine_distance_def Let_def radians_def sqrt_py_def atan2_def)

lemma example_history_selected:
  "select_raw_positions 3 example_gap
     (Some [iso_position ''1970-01-01T00:00:00'', iso_position ''1970-01-01T04:00:00'',
            iso_position ''1970-01-01T12:00:00'']) =
   Inr [iso_position ''1970-01-01T00:00:00'', iso_position ''1970-01-01T04:00:00'']"
proof -
  have "''1970-01-01T00:00:00'' < ''1970-01-01T05:00:00''"
    "''1970-01-01T04:00:00'' < ''1970-01-01T05:00:00''"
    "\<not> ''1970-01-01T12:00:00'' < ''1970-01-01T05:00:00''"
    by (simp_all add: less_char_def)
  then show ?thesis
    by (simp add: select_raw_positions_def example_gap_def iso_position_def get_timestamp_def
        Let_def slice_from_def)
qed

lemma example_history_built:
  "build_sequence utc_lib None
     [iso_position ''1970-01-01T00:00:00'', iso_position ''1970-01-01T04:00:00''] =
   Inr [\<lparr> sp_lat = 0, sp_lon = 0, sp_speed = 0, sp_course = 0,
           sp_timestamp = PStr ''1970-01-01T00:00:00'' \<rparr>,
        \<lparr> sp_lat = 0, sp_lon = 0, sp_speed = 0, sp_course = 0,
           sp_timestamp = PStr ''1970-01-01T04:00:00'' \<rparr>]"
  by (simp add: sequence_point_def get_timestamp_def Let_def or_default_def py_round_zero
      haversine_same_point iso_position_def speed_between_def utc_lib_def replace_char_def)

text \<open>
  For a \<^verbatim>\<open>sequence_length\<close> of at least 1, whenever the selection of the raw positions and the
  derivation of the points return, \<^verbatim>\<open>preprocess_gap_event\<close> returns a sequence of exactly
  \<^verbatim>\<open>sequence_length\<close> points: the derived points, cut down to the most recent
  \<^verbatim>\<open>sequence_length\<close> when there are more, and otherwise preceded by copies of the earliest
  point with speed and course set to 0.
\<close>

lemma preprocess_returns_sequence_length:
  assumes "1 \<le> sequence_length"
    and "select_raw_positions sequence_length gap_event positions = Inr raw_positions"
    and "build_sequence lib None raw_positions = Inr derived"
  shows "\<exists>r. preprocess_gap_event lib sequence_length gap_event positions = Inr r
           \<and> out_sequence r =
               (if sequence_length < int (length derived)
                then drop (length derived - nat sequence_length) derived
                else replicate (nat sequence_length - length derived)
                       (zero_kinematics (hd derived)) @ derived)
           \<and> int (length (out_sequence r)) = sequence_length
           \<and> out_sequence_length r = nat sequence_length"
proof -
  have "length derived = length raw_positions" using assms(3) by (rule build_sequence_length)
  then have ne: "derived \<noteq> []" using select_raw_positions_nonempty [OF assms(2)] by auto
  have l: "int (length (if sequence_length < int (length derived)
                then drop (length derived - nat sequence_length) derived
                else replicate (nat sequence_length - length derived)
                       (zero_kinematics (hd derived)) @ derived)) = sequence_length"
    using assms(1) by auto
  then have l': "length (if sequence_length < int (length derived)
                then drop (length derived - nat sequence_length) derived
                else replicate (nat sequence_length - length derived)
                       (zero_kinematics (hd derived)) @ derived) = nat sequence_length"
    by linarith
  show ?thesis
    using ne l l'
    by (simp add: assms(2,3) preprocess_gap_event_def fit_length_eq [OF ne assms(1)])
qed

text \<open>A history of three reports, one of them after the gap, with \<^verbatim>\<open>sequence_length = 3\<close>.\<close>

lemma example_history_preprocessed:
  "\<exists>r. preprocess_gap_event utc_lib 3 example_gap
          (Some [iso_position ''1970-01-01T00:00:00'', iso_position ''1970-01-01T04:00:00'',
                 iso_position ''1970-01-01T12:00:00'']) = Inr r
       \<and> out_sequence r =
           [\<lparr> sp_lat = 0, sp_lon = 0, sp_speed = 0, sp_course = 0,
               sp_timestamp = PStr ''1970-01-01T00:00:00'' \<rparr>,
            \<lparr> sp_lat = 0, sp_lon = 0, sp_speed = 0, sp_course = 0,
               sp_timestamp = PStr ''1970-01-01T00:00:00'' \<rparr>,
            \<lparr> sp_lat = 0, sp_lon = 0, sp_speed = 0, sp_course = 0,
               sp_timestamp = PStr ''1970-01-01T04:00:00'' \<rparr>]
       \<and> out_sequence_length r = 3"
proof -
  have h: "1 \<le> (3::int)" by simp
  show ?thesis
    using preprocess_returns_sequence_length
            [OF h example_history_selected example_history_built]
    by (auto simp: zero_kinematics_def)
qed

text \<open>
  Claim C4 does not hold of the code at \<^verbatim>\<open>sequence_length = 0\<close>. For a gap event with no
  position history the stand-in for the history is one point, built from the last position of
  the gap event. The truncation \<^verbatim>\<open>sequence[-self.sequence_length:]\<close> is then \<^verbatim>\<open>sequence[-0:]\<close>,
  which keeps the whole list, and the padding loop has nothing to do: the sequence returned
  has one point and the field \<^verbatim>\<open>sequence_length\<close> of the result is 1, where the claim, and the
  comment \<^verbatim>\<open>Pad to exact sequence length\<close> of the code, ask for a sequence of length 0.
\<close>

theorem zero_sequence_length_keeps_one_point:
  "map_sum id out_sequence (preprocess_gap_event utc_lib 0 example_gap None) =
     Inr [\<lparr> sp_lat = 0, sp_lon = 0, sp_speed = 0, sp_course = 0, sp_timestamp = PNum 18000 \<rparr>]
   \<and> map_sum id out_sequence_length (preprocess_gap_event utc_lib 0 example_gap None) = Inr 1
   \<and> length [\<lparr> sp_lat = 0, sp_lon = 0, sp_speed = 0, sp_course = 0,
               sp_timestamp = PNum 18000 \<rparr>] \<noteq> 0"
  by (simp add: preprocess_gap_event_def select_raw_positions_def example_gap_def position_at_def
      get_timestamp_def sequence_point_def or_default_def py_round_zero fit_length_def
      slice_from_def pad_sequence.simps Let_def)

end
